theory Spec2Isabelle
  imports Main "HOL-Library.Word"
begin

unbundle bit_operations_syntax

section \<open>Go values: bytes, strings, multiple returns, errors, panics\<close>

text \<open>
  A Go \<^verbatim>\<open>string\<close> is a sequence of bytes; it is modelled as \<^typ>\<open>string\<close>, whose
  characters are bytes. A \<^verbatim>\<open>[]byte\<close> is a list of 8-bit words. Go's \<^verbatim>\<open>int\<close> is taken
  to be 64 bits wide (the width only matters inside \<^verbatim>\<open>strconv.Atoi\<close>, where it is
  written out). A function returning \<^verbatim>\<open>(T, error)\<close> returns a pair whose second
  component is \<open>None\<close> for \<^verbatim>\<open>nil\<close>; a pointer that may be \<^verbatim>\<open>nil\<close> is an option.
  A run-time panic (nil dereference, slice bound) is the outcome \<open>Panicked\<close>.
\<close>

type_synonym byte = "8 word"
type_synonym bytes = "byte list"

definition bytes_of_string :: "string \<Rightarrow> bytes" where
  "bytes_of_string s = map (\<lambda>c. word_of_nat (of_char c)) s"

definition string_of_bytes :: "bytes \<Rightarrow> string" where
  "string_of_bytes bs = map (\<lambda>b. char_of (unat b)) bs"

datatype num_err = ErrSyntax | ErrRange

text \<open>
  Modelled from the spec: \<^verbatim>\<open>services.FieldErrors\<close> and \<^verbatim>\<open>services.ErrNotFound\<close> are
  declared in a file of the \<^verbatim>\<open>services\<close> package other than the archiver's. The spec
  calls the value returned for a missing account a domain-level NotFound error tagged
  to the \<^verbatim>\<open>account\<close> field: \<open>FieldErrors\<close> holds pairs of a field name and a
  message, and \<open>ErrNotFound\<close> is the message.
\<close>

datatype field_message = ErrNotFound | Message string

text \<open>
  The error values of the code: the missing-variable error of \<^verbatim>\<open>app/env.go\<close>,
  \<^verbatim>\<open>strconv.NumError\<close> (function, input, cause), the field errors of the services,
  \<^verbatim>\<open>errors.Wrap(err, msg)\<close>, and \<open>LibError\<close> for the errors the file system, the
  URL parser and the key parsers produce.
\<close>

datatype error =
    ErrMissingEnvVar string
  | NumError string string num_err
  | LibError string
  | FieldErrors "(string \<times> field_message) list"
  | Wrap error string

datatype 'a outcome = Returned 'a | Panicked

text \<open>
  \<^verbatim>\<open>func (name ErrMissingEnvVar) Error() string\<close> of \<^verbatim>\<open>app/env.go\<close>: the message of
  the error value \<open>ErrMissingEnvVar name\<close>.
\<close>

definition ErrMissingEnvVar_Error :: "string \<Rightarrow> string" where
  "ErrMissingEnvVar_Error name = ''missing environment variable: '' @ name"

text \<open>
  Library functions that hand back \<^verbatim>\<open>(nil, err)\<close> or \<^verbatim>\<open>(value, nil)\<close> are given as
  sums; \<open>go_pair\<close> is the pair the Go caller sees.
\<close>

definition go_pair :: "error + 'a \<Rightarrow> 'a option \<times> error option" where
  "go_pair r = (case r of Inl e \<Rightarrow> (None, Some e) | Inr v \<Rightarrow> (Some v, None))"

section \<open>\<^verbatim>\<open>strconv.Atoi\<close>\<close>

text \<open>
  The standard library's base-10 parser, for a 64-bit \<^verbatim>\<open>int\<close>. \<open>ParseUint10\<close> is the
  digit loop of \<^verbatim>\<open>strconv.ParseUint(s, 10, 64)\<close>: it stops at the first non-digit with
  a syntax error and at the first overflow with a range error. \<open>Atoi\<close> strips one
  sign, rejects the empty string, and clamps on a range error, as \<^verbatim>\<open>ParseInt\<close> does.
  The value returned with a syntax error is 0.
\<close>

definition maxUint64 :: nat where
  "maxUint64 = 2 ^ 64 - 1"

definition is_digit :: "char \<Rightarrow> bool" where
  "is_digit c = (of_char CHR ''0'' \<le> (of_char c :: nat) \<and> (of_char c :: nat) \<le> of_char CHR ''9'')"

definition digit_val :: "char \<Rightarrow> nat" where
  "digit_val c = of_char c - of_char CHR ''0''"

fun ParseUint10 :: "nat \<Rightarrow> string \<Rightarrow> num_err + nat" where
  "ParseUint10 n [] = Inr n"
| "ParseUint10 n (c # cs) =
     (if \<not> is_digit c then Inl ErrSyntax
      else if n \<ge> maxUint64 div 10 + 1 then Inl ErrRange
      else if n * 10 + digit_val c > maxUint64 then Inl ErrRange
      else ParseUint10 (n * 10 + digit_val c) cs)"

definition Atoi :: "string \<Rightarrow> int \<times> error option" where
  "Atoi s0 =
     (if s0 = [] then (0, Some (NumError ''Atoi'' s0 ErrSyntax))
      else
        let neg = (hd s0 = CHR ''-'');
            s = (if hd s0 = CHR ''+'' \<or> hd s0 = CHR ''-'' then tl s0 else s0)
        in if s = [] then (0, Some (NumError ''Atoi'' s0 ErrSyntax))
           else (case ParseUint10 0 s of
                   Inl ErrSyntax \<Rightarrow> (0, Some (NumError ''Atoi'' s0 ErrSyntax))
                 | Inl ErrRange \<Rightarrow>
                     (if neg then - (2 ^ 63) else 2 ^ 63 - 1, Some (NumError ''Atoi'' s0 ErrRange))
                 | Inr un \<Rightarrow>
                     if \<not> neg \<and> un \<ge> 2 ^ 63 then (2 ^ 63 - 1, Some (NumError ''Atoi'' s0 ErrRange))
                     else if neg \<and> un > 2 ^ 63 then (- (2 ^ 63), Some (NumError ''Atoi'' s0 ErrRange))
                     else (if neg then - int un else int un, None)))"

section \<open>\<^verbatim>\<open>net/url\<close>: the parsed URL and its port\<close>

text \<open>
  The fields of \<^verbatim>\<open>url.URL\<close> that the configuration code reads. \<open>URL_Port\<close> is the
  method \<^verbatim>\<open>Port()\<close>: the text after the last colon of \<open>Host\<close> when that text is all
  digits (possibly empty), and the empty string otherwise. Parsing itself
  (\<^verbatim>\<open>url.Parse\<close>) is a parameter of the functions that call it.
\<close>

record URL =
  Scheme :: string
  Host :: string
  Path :: string

fun LastIndexByte :: "string \<Rightarrow> char \<Rightarrow> nat option" where
  "LastIndexByte [] c = None"
| "LastIndexByte (x # xs) c =
     (case LastIndexByte xs c of
        Some i \<Rightarrow> Some (Suc i)
      | None \<Rightarrow> if x = c then Some 0 else None)"

definition validOptionalPort :: "string \<Rightarrow> bool" where
  "validOptionalPort port =
     (if port = [] then True
      else if hd port \<noteq> CHR '':'' then False
      else list_all is_digit (tl port))"

definition URL_Port :: "URL \<Rightarrow> string" where
  "URL_Port u =
     (case LastIndexByte (Host u) CHR '':'' of
        Some colon \<Rightarrow>
          if validOptionalPort (drop colon (Host u)) then drop (colon + 1) (Host u) else []
      | None \<Rightarrow> [])"

section \<open>\<^verbatim>\<open>regexp.MatchString\<close> on the pattern of \<^verbatim>\<open>lookupBool\<close>\<close>

text \<open>
  \<^verbatim>\<open>lookupBool\<close> returns \<^verbatim>\<open>regexp.MatchString("^(?i:t|true|yes)$", val)\<close>. The matcher
  works on the runes of the value, decoded from UTF-8 as \<^verbatim>\<open>utf8.DecodeRuneInString\<close>
  does (an invalid byte is the rune \<open>RuneError\<close> of width 1). A literal under the
  flag \<^verbatim>\<open>i\<close> matches a rune when the rune is on the literal's orbit under
  \<^verbatim>\<open>unicode.SimpleFold\<close>, which the engine walks until it is back at the literal.
  \<open>SimpleFold\<close> is the library's table on the orbits that meet ASCII: the letters
  in their two cases, with U+212A (Kelvin sign) on the orbit of \<open>k\<close> and U+017F (long
  s) on the orbit of \<open>s\<close>; no orbit has more than four members, the bound of
  \<open>fold_loop\<close>. \<^verbatim>\<open>^\<close> and \<^verbatim>\<open>$\<close> are the beginning and the end of the text (no
  flag \<^verbatim>\<open>m\<close>). The pattern is a constant that compiles, so the error returned with
  the result is \<^verbatim>\<open>nil\<close>.
\<close>

type_synonym rune = nat

definition RuneError :: rune where
  "RuneError = 0xFFFD"

definition is_cont :: "nat \<Rightarrow> bool" where
  "is_cont b = (0x80 \<le> b \<and> b \<le> 0xBF)"

definition DecodeRune :: "nat list \<Rightarrow> rune \<times> nat" where
  "DecodeRune s =
     (case s of
        [] \<Rightarrow> (RuneError, 0)
      | b0 # bs \<Rightarrow>
          if b0 < 0x80 then (b0, 1)
          else if 0xC2 \<le> b0 \<and> b0 \<le> 0xDF then
            (case bs of
               b1 # _ \<Rightarrow>
                 if is_cont b1 then ((b0 mod 32) * 64 + b1 mod 64, 2) else (RuneError, 1)
             | _ \<Rightarrow> (RuneError, 1))
          else if 0xE0 \<le> b0 \<and> b0 \<le> 0xEF then
            (case bs of
               b1 # b2 # _ \<Rightarrow>
                 if (if b0 = 0xE0 then 0xA0 else 0x80) \<le> b1
                    \<and> b1 \<le> (if b0 = 0xED then 0x9F else 0xBF) \<and> is_cont b2
                 then ((b0 mod 16) * 4096 + (b1 mod 64) * 64 + b2 mod 64, 3)
                 else (RuneError, 1)
             | _ \<Rightarrow> (RuneError, 1))
          else if 0xF0 \<le> b0 \<and> b0 \<le> 0xF4 then
            (case bs of
               b1 # b2 # b3 # _ \<Rightarrow>
                 if (if b0 = 0xF0 then 0x90 else 0x80) \<le> b1
                    \<and> b1 \<le> (if b0 = 0xF4 then 0x8F else 0xBF) \<and> is_cont b2 \<and> is_cont b3
                 then ((b0 mod 8) * 262144 + (b1 mod 64) * 4096 + (b2 mod 64) * 64 + b3 mod 64, 4)
                 else (RuneError, 1)
             | _ \<Rightarrow> (RuneError, 1))
          else (RuneError, 1))"

function utf8_runes :: "nat list \<Rightarrow> rune list" where
  "utf8_runes s =
     (if s = [] then []
      else fst (DecodeRune s) # utf8_runes (drop (snd (DecodeRune s)) s))"
  by pat_completeness auto
termination
proof (relation "measure length")
  show "wf (measure length)"
    by simp
next
  fix s :: "nat list"
  assume ne: "s \<noteq> []"
  then have "0 < snd (DecodeRune s)"
    by (cases s) (auto simp: DecodeRune_def split: list.splits)
  with ne show "(drop (snd (DecodeRune s)) s, s) \<in> measure length"
    by simp
qed

declare utf8_runes.simps [simp del]

definition runes_of :: "string \<Rightarrow> rune list" where
  "runes_of s = utf8_runes (map of_char s)"

definition SimpleFold :: "rune \<Rightarrow> rune" where
  "SimpleFold r =
     (if r = 0x4B then 0x6B
      else if r = 0x6B then 0x212A
      else if r = 0x212A then 0x4B
      else if r = 0x53 then 0x73
      else if r = 0x73 then 0x17F
      else if r = 0x17F then 0x53
      else if 0x41 \<le> r \<and> r \<le> 0x5A then r + 32
      else if 0x61 \<le> r \<and> r \<le> 0x7A then r - 32
      else r)"

fun fold_loop :: "nat \<Rightarrow> rune \<Rightarrow> rune \<Rightarrow> rune \<Rightarrow> bool" where
  "fold_loop 0 r0 r1 r = False"
| "fold_loop (Suc k) r0 r1 r =
     (if r1 = r0 then False
      else if r = r1 then True
      else fold_loop k r0 (SimpleFold r1) r)"

definition MatchRune :: "bool \<Rightarrow> rune \<Rightarrow> rune \<Rightarrow> bool" where
  "MatchRune foldCase r0 r = (r = r0 \<or> (foldCase \<and> fold_loop 4 r0 (SimpleFold r0) r))"

datatype regexp =
    Literal bool "rune list"
  | BeginText
  | EndText
  | Concat regexp regexp
  | Alternate regexp regexp

fun match_literal :: "bool \<Rightarrow> rune list \<Rightarrow> rune list \<Rightarrow> rune list option" where
  "match_literal foldCase [] inp = Some inp"
| "match_literal foldCase (r0 # w) [] = None"
| "match_literal foldCase (r0 # w) (r # inp) =
     (if MatchRune foldCase r0 r then match_literal foldCase w inp else None)"

text \<open>
  A matcher state is a position in the text and the runes from there on;
  \<open>re_step\<close> lists the states in which a match of the expression begun at a state
  can end, and \<open>starts\<close> lists every state of the text. \<^verbatim>\<open>MatchString\<close> asks for a
  match beginning anywhere.
\<close>

fun re_step :: "regexp \<Rightarrow> nat \<times> rune list \<Rightarrow> (nat \<times> rune list) list" where
  "re_step (Literal foldCase w) (i, inp) =
     (case match_literal foldCase w inp of
        Some rest \<Rightarrow> [(i + length w, rest)]
      | None \<Rightarrow> [])"
| "re_step BeginText (i, inp) = (if i = 0 then [(i, inp)] else [])"
| "re_step EndText (i, inp) = (if inp = [] then [(i, inp)] else [])"
| "re_step (Concat a b) st = concat (map (re_step b) (re_step a st))"
| "re_step (Alternate a b) st = re_step a st @ re_step b st"

fun starts :: "nat \<Rightarrow> rune list \<Rightarrow> (nat \<times> rune list) list" where
  "starts i [] = [(i, [])]"
| "starts i (r # rs) = (i, r # rs) # starts (Suc i) rs"

definition regexp_MatchString :: "regexp \<Rightarrow> string \<Rightarrow> bool \<times> error option" where
  "regexp_MatchString re s =
     (list_ex (\<lambda>st. re_step re st \<noteq> []) (starts 0 (runes_of s)), None)"

text \<open>The parse of \<^verbatim>\<open>^(?i:t|true|yes)$\<close>.\<close>

definition truthy_pattern :: regexp where
  "truthy_pattern =
     Concat BeginText
       (Concat
          (Alternate (Literal True (runes_of ''t''))
             (Alternate (Literal True (runes_of ''true'')) (Literal True (runes_of ''yes''))))
          EndText)"

section \<open>\<^verbatim>\<open>app/env.go\<close>: typed lookups over the environment\<close>

text \<open>
  The process environment is a finite map from names to values; \<^verbatim>\<open>os.LookupEnv\<close> is
  its application. The file system is the function \<^verbatim>\<open>ioutil.ReadFile\<close> computes.
\<close>

type_synonym environ = "string \<rightharpoonup> string"
type_synonym url_parser = "string \<Rightarrow> error + URL"
type_synonym file_reader = "string \<Rightarrow> error + bytes"

definition requireEnv :: "environ \<Rightarrow> string \<Rightarrow> string \<times> error option" where
  "requireEnv env name =
     (case env name of
        Some val \<Rightarrow> (val, None)
      | None \<Rightarrow> ('''', Some (ErrMissingEnvVar name)))"

definition lookupInt :: "environ \<Rightarrow> string \<Rightarrow> int \<Rightarrow> int \<times> error option" where
  "lookupInt env name def =
     (case env name of
        Some val \<Rightarrow> Atoi val
      | None \<Rightarrow> (def, None))"

definition lookupBool :: "environ \<Rightarrow> string \<Rightarrow> bool \<Rightarrow> bool \<times> error option" where
  "lookupBool env name def =
     (case env name of
        Some val \<Rightarrow> regexp_MatchString truthy_pattern val
      | None \<Rightarrow> (def, None))"

definition lookupURL :: "url_parser \<Rightarrow> environ \<Rightarrow> string \<Rightarrow> URL option \<times> error option" where
  "lookupURL url_Parse env name =
     (case env name of
        Some val \<Rightarrow> go_pair (url_Parse val)
      | None \<Rightarrow> (None, None))"

definition lookupSecureURL ::
  "url_parser \<Rightarrow> file_reader \<Rightarrow> environ \<Rightarrow> string \<Rightarrow> URL option \<times> error option" where
  "lookupSecureURL url_Parse ReadFile env name =
     (case env name of
        Some fileName \<Rightarrow>
          (case ReadFile fileName of
             Inl err \<Rightarrow> (None, Some err)
           | Inr val \<Rightarrow> go_pair (url_Parse (string_of_bytes val)))
      | None \<Rightarrow> (None, None))"

section \<open>Key derivation: SHA-256, HMAC and PBKDF2\<close>

text \<open>
  \<^verbatim>\<open>derive\<close> calls \<^verbatim>\<open>pbkdf2.Key(base, salt, 2e4, 128, sha256.New)\<close>. The three library
  layers are written out as the Go packages compute them: the SHA-256 block function
  over 32-bit words (message schedule, 64 rounds, feed-forward), the padding of
  \<^verbatim>\<open>checkSum\<close>, HMAC with a 64-byte block, and the PBKDF2 block loop, whose result is
  cut to \<^verbatim>\<open>keyLen\<close> bytes.
\<close>

type_synonym uint32 = "32 word"

definition sha256_init :: "uint32 list" where
  "sha256_init =
     [0x6A09E667, 0xBB67AE85, 0x3C6EF372, 0xA54FF53A,
      0x510E527F, 0x9B05688C, 0x1F83D9AB, 0x5BE0CD19]"

definition sha256_K :: "uint32 list" where
  "sha256_K =
     [0x428A2F98, 0x71374491, 0xB5C0FBCF, 0xE9B5DBA5, 0x3956C25B, 0x59F111F1, 0x923F82A4, 0xAB1C5ED5,
      0xD807AA98, 0x12835B01, 0x243185BE, 0x550C7DC3, 0x72BE5D74, 0x80DEB1FE, 0x9BDC06A7, 0xC19BF174,
      0xE49B69C1, 0xEFBE4786, 0x0FC19DC6, 0x240CA1CC, 0x2DE92C6F, 0x4A7484AA, 0x5CB0A9DC, 0x76F988DA,
      0x983E5152, 0xA831C66D, 0xB00327C8, 0xBF597FC7, 0xC6E00BF3, 0xD5A79147, 0x06CA6351, 0x14292967,
      0x27B70A85, 0x2E1B2138, 0x4D2C6DFC, 0x53380D13, 0x650A7354, 0x766A0ABB, 0x81C2C92E, 0x92722C85,
      0xA2BFE8A1, 0xA81A664B, 0xC24B8B70, 0xC76C51A3, 0xD192E819, 0xD6990624, 0xF40E3585, 0x106AA070,
      0x19A4C116, 0x1E376C08, 0x2748774C, 0x34B0BCB5, 0x391C0CB3, 0x4ED8AA4A, 0x5B9CCA4F, 0x682E6FF3,
      0x748F82EE, 0x78A5636F, 0x84C87814, 0x8CC70208, 0x90BEFFFA, 0xA4506CEB, 0xBEF9A3F7, 0xC67178F2]"

definition be32 :: "byte \<Rightarrow> byte \<Rightarrow> byte \<Rightarrow> byte \<Rightarrow> uint32" where
  "be32 b0 b1 b2 b3 =
     push_bit 24 (ucast b0) OR push_bit 16 (ucast b1) OR push_bit 8 (ucast b2) OR ucast b3"

definition load_words :: "bytes \<Rightarrow> uint32 list" where
  "load_words p =
     map (\<lambda>i. be32 (p ! (4 * i)) (p ! (4 * i + 1)) (p ! (4 * i + 2)) (p ! (4 * i + 3))) [0..<16]"

fun schedule :: "nat \<Rightarrow> uint32 list \<Rightarrow> uint32 list" where
  "schedule 0 w = w"
| "schedule (Suc k) w =
     (let i = length w;
          v1 = w ! (i - 2);
          t1 = word_rotr 17 v1 XOR word_rotr 19 v1 XOR drop_bit 10 v1;
          v2 = w ! (i - 15);
          t2 = word_rotr 7 v2 XOR word_rotr 18 v2 XOR drop_bit 3 v2
      in schedule k (w @ [t1 + w ! (i - 7) + t2 + w ! (i - 16)]))"

type_synonym sha_regs = "uint32 \<times> uint32 \<times> uint32 \<times> uint32 \<times> uint32 \<times> uint32 \<times> uint32 \<times> uint32"

definition sha_round :: "sha_regs \<Rightarrow> uint32 \<times> uint32 \<Rightarrow> sha_regs" where
  "sha_round r kw =
     (case r of (a, b, c, d, e, f, g, h) \<Rightarrow>
        let t1 = h + (word_rotr 6 e XOR word_rotr 11 e XOR word_rotr 25 e)
                   + ((e AND f) XOR (NOT e AND g)) + fst kw + snd kw;
            t2 = (word_rotr 2 a XOR word_rotr 13 a XOR word_rotr 22 a)
                   + ((a AND b) XOR (a AND c) XOR (b AND c))
        in (t1 + t2, a, b, c, d + t1, e, f, g))"

definition sha_block :: "uint32 list \<Rightarrow> bytes \<Rightarrow> uint32 list" where
  "sha_block hs p =
     (let w = schedule 48 (load_words p);
          r0 = (hs ! 0, hs ! 1, hs ! 2, hs ! 3, hs ! 4, hs ! 5, hs ! 6, hs ! 7)
      in case foldl sha_round r0 (zip sha256_K w) of
           (a, b, c, d, e, f, g, h) \<Rightarrow>
             [hs ! 0 + a, hs ! 1 + b, hs ! 2 + c, hs ! 3 + d,
              hs ! 4 + e, hs ! 5 + f, hs ! 6 + g, hs ! 7 + h])"

definition chunks :: "bytes \<Rightarrow> bytes list" where
  "chunks p = map (\<lambda>i. take 64 (drop (64 * i) p)) [0..<length p div 64]"

definition PutUint64 :: "nat \<Rightarrow> bytes" where
  "PutUint64 v = map (\<lambda>i. word_of_nat (v div 2 ^ (8 * (7 - i)))) [0..<8]"

definition sha_padding :: "nat \<Rightarrow> bytes" where
  "sha_padding len =
     (let t = (if len mod 64 < 56 then 56 - len mod 64 else 64 + 56 - len mod 64)
      in 0x80 # replicate (t - 1) 0 @ PutUint64 ((len * 8) mod 2 ^ 64))"

definition PutUint32 :: "uint32 \<Rightarrow> bytes" where
  "PutUint32 v = [ucast (drop_bit 24 v), ucast (drop_bit 16 v), ucast (drop_bit 8 v), ucast v]"

definition sha256_Sum :: "bytes \<Rightarrow> bytes" where
  "sha256_Sum msg =
     concat (map PutUint32 (foldl sha_block sha256_init (chunks (msg @ sha_padding (length msg)))))"

definition hmac_sha256 :: "bytes \<Rightarrow> bytes \<Rightarrow> bytes" where
  "hmac_sha256 key msg =
     (let k = (if length key > 64 then sha256_Sum key else key);
          kp = k @ replicate (64 - length k) 0;
          ipad = map (\<lambda>b. b XOR 0x36) kp;
          opad = map (\<lambda>b. b XOR 0x5C) kp
      in sha256_Sum (opad @ sha256_Sum (ipad @ msg)))"

fun pbkdf2_rounds :: "(bytes \<Rightarrow> bytes) \<Rightarrow> nat \<Rightarrow> bytes \<Rightarrow> bytes \<Rightarrow> bytes" where
  "pbkdf2_rounds prf 0 U T = T"
| "pbkdf2_rounds prf (Suc n) U T =
     (let U' = prf U in pbkdf2_rounds prf n U' (map2 (XOR) T U'))"

definition pbkdf2_block :: "(bytes \<Rightarrow> bytes) \<Rightarrow> bytes \<Rightarrow> nat \<Rightarrow> nat \<Rightarrow> bytes" where
  "pbkdf2_block prf salt iter block =
     (let buf = [word_of_nat (block div 2 ^ 24), word_of_nat (block div 2 ^ 16),
                 word_of_nat (block div 2 ^ 8), word_of_nat block];
          T = prf (salt @ buf)
      in pbkdf2_rounds prf (iter - 1) T T)"

definition pbkdf2_Key :: "bytes \<Rightarrow> bytes \<Rightarrow> nat \<Rightarrow> nat \<Rightarrow> bytes" where
  "pbkdf2_Key password salt iter keyLen =
     (let prf = hmac_sha256 password;
          hashLen = 32;
          numBlocks = (keyLen + hashLen - 1) div hashLen;
          dk = concat (map (pbkdf2_block prf salt iter) [1..<numBlocks + 1])
      in take keyLen dk)"

text \<open>\<^verbatim>\<open>derive\<close> of the configuration file: 20000 iterations, 128 bytes.\<close>

definition derive :: "bytes \<Rightarrow> string \<Rightarrow> bytes" where
  "derive base salt = pbkdf2_Key base (bytes_of_string salt) 20000 128"

section \<open>The configuration record\<close>

text \<open>
  \<^verbatim>\<open>type Config struct\<close>, field by field. Durations are integers (nanoseconds);
  pointers are options; the element and pointee types that belong to other packages
  (\<^verbatim>\<open>route.Domain\<close>, \<^verbatim>\<open>private.Key\<close>, \<^verbatim>\<open>time.Location\<close>, \<^verbatim>\<open>oauth.Credentials\<close>,
  \<^verbatim>\<open>rsa.PrivateKey\<close>) are left opaque; \<^verbatim>\<open>ops.ErrorReporterType\<close> is an integer
  enumeration. \<open>zeroConfig\<close> is Go's zero value \<^verbatim>\<open>Config{}\<close>.
\<close>

typedecl Domain
typedecl private_Key
typedecl rsa_PrivateKey
typedecl Location
typedecl Credentials

record Config =
  AppPasswordlessTokenURL :: "URL option"
  PasswordlessTokenTTL :: int
  PasswordlessTokenSigningKey :: bytes
  AppPasswordResetURL :: "URL option"
  AppPasswordChangedURL :: "URL option"
  ApplicationDomains :: "Domain list"
  BcryptCost :: int
  UsernameIsEmail :: bool
  UsernameMinLength :: int
  UsernameDomains :: "string list"
  PasswordMinComplexity :: int
  RefreshTokenTTL :: int
  RedisURL :: "URL option"
  DatabaseURL :: "URL option"
  SessionCookieName :: string
  OAuthCookieName :: string
  SessionSigningKey :: bytes
  ResetSigningKey :: bytes
  DBEncryptionKey :: bytes
  OAuthSigningKey :: bytes
  ResetTokenTTL :: int
  IdentitySigningKey :: "private_Key option"
  AuthNURL :: "URL option"
  ForceSSL :: bool
  MountedPath :: string
  AccessTokenTTL :: int
  AuthUsername :: string
  AuthPassword :: string
  EnableSignup :: bool
  StatisticsTimeZone :: "Location option"
  DailyActivesRetention :: int
  WeeklyActivesRetention :: int
  ErrorReporterCredentials :: string
  ErrorReporterType :: int
  ServerPort :: int
  PublicPort :: int
  Proxied :: bool
  GoogleOauthCredentials :: "Credentials option"
  GitHubOauthCredentials :: "Credentials option"
  FacebookOauthCredentials :: "Credentials option"
  DiscordOauthCredentials :: "Credentials option"

definition zeroConfig :: Config where
  "zeroConfig = \<lparr>
     AppPasswordlessTokenURL = None, PasswordlessTokenTTL = 0,
     PasswordlessTokenSigningKey = [], AppPasswordResetURL = None,
     AppPasswordChangedURL = None, ApplicationDomains = [], BcryptCost = 0,
     UsernameIsEmail = False, UsernameMinLength = 0, UsernameDomains = [],
     PasswordMinComplexity = 0, RefreshTokenTTL = 0, RedisURL = None, DatabaseURL = None,
     SessionCookieName = [], OAuthCookieName = [], SessionSigningKey = [],
     ResetSigningKey = [], DBEncryptionKey = [], OAuthSigningKey = [], ResetTokenTTL = 0,
     IdentitySigningKey = None, AuthNURL = None, ForceSSL = False, MountedPath = [],
     AccessTokenTTL = 0, AuthUsername = [], AuthPassword = [], EnableSignup = False,
     StatisticsTimeZone = None, DailyActivesRetention = 0, WeeklyActivesRetention = 0,
     ErrorReporterCredentials = [], ErrorReporterType = 0, ServerPort = 0, PublicPort = 0,
     Proxied = False, GoogleOauthCredentials = None, GitHubOauthCredentials = None,
     FacebookOauthCredentials = None, DiscordOauthCredentials = None \<rparr>"

section \<open>Configurers\<close>

text \<open>
  A configurer is \<^verbatim>\<open>func(c *Config) error\<close>: it mutates the record and returns an error
  or \<^verbatim>\<open>nil\<close>. Here it takes the record and returns the record as the step left it
  together with the returned error, or \<open>Panicked\<close>. The environment, the file reader
  and the library parsers a step calls are its leading arguments. Writes to standard
  output (\<^verbatim>\<open>fmt.Printf\<close>) are not part of the model.
\<close>

type_synonym configurer = "Config \<Rightarrow> (Config \<times> error option) outcome"

text \<open>A slice expression \<^verbatim>\<open>s[:n]\<close> on a slice whose capacity is its length.\<close>

definition slice_to :: "'a list \<Rightarrow> nat \<Rightarrow> 'a list outcome" where
  "slice_to s n = (if n \<le> length s then Returned (take n s) else Panicked)"

text \<open>The \<^verbatim>\<open>AUTHN_URL\<close> step.\<close>

definition AUTHN_URL_step :: "url_parser \<Rightarrow> environ \<Rightarrow> configurer" where
  "AUTHN_URL_step url_Parse env c =
     (case lookupURL url_Parse env ''AUTHN_URL'' of
        (val, Some err) \<Rightarrow> Returned (c, Some err)
      | (None, None) \<Rightarrow> Returned (c, Some (ErrMissingEnvVar ''AUTHN_URL''))
      | (Some u, None) \<Rightarrow>
          Returned (c\<lparr>AuthNURL := Some u,
                      MountedPath := (if Path u = [] then ''/'' else Path u),
                      ForceSSL := (Scheme u = ''https'')\<rparr>, None))"

text \<open>
  The \<^verbatim>\<open>SECRET_KEY_BASE\<close> step. The five assignments are written twice in the source,
  once for the value of the variable and once for the contents of the file.
\<close>

definition SECRET_KEY_BASE_step :: "file_reader \<Rightarrow> environ \<Rightarrow> configurer" where
  "SECRET_KEY_BASE_step ReadFile env c =
     (case requireEnv env ''SECRET_KEY_BASE_FILE'' of
        (fileName, Some err) \<Rightarrow>
          (case requireEnv env ''SECRET_KEY_BASE'' of
             (val, Some err) \<Rightarrow> Returned (c, Some err)
           | (val, None) \<Rightarrow>
               (case slice_to (derive (bytes_of_string val) ''db-encryption-key-salt'') 32 of
                  Panicked \<Rightarrow> Panicked
                | Returned dbKey \<Rightarrow>
                    Returned
                      (c\<lparr>SessionSigningKey := derive (bytes_of_string val) ''session-key-salt'',
                         ResetSigningKey :=
                           derive (bytes_of_string val) ''password-reset-token-key-salt'',
                         PasswordlessTokenSigningKey :=
                           derive (bytes_of_string val) ''passwordless-token-key-salt'',
                         DBEncryptionKey := dbKey,
                         OAuthSigningKey := derive (bytes_of_string val) ''oauth-key-salt''\<rparr>,
                       None)))
      | (fileName, None) \<Rightarrow>
          (case ReadFile fileName of
             Inl err \<Rightarrow> Returned (c, Some err)
           | Inr val \<Rightarrow>
               (case slice_to (derive val ''db-encryption-key-salt'') 32 of
                  Panicked \<Rightarrow> Panicked
                | Returned dbKey \<Rightarrow>
                    Returned
                      (c\<lparr>SessionSigningKey := derive val ''session-key-salt'',
                         ResetSigningKey := derive val ''password-reset-token-key-salt'',
                         PasswordlessTokenSigningKey := derive val ''passwordless-token-key-salt'',
                         DBEncryptionKey := dbKey,
                         OAuthSigningKey := derive val ''oauth-key-salt''\<rparr>,
                       None))))"

text \<open>
  The \<^verbatim>\<open>DATABASE_URL\<close> step. The inner \<^verbatim>\<open>val, err :=\<close> declares new variables in the
  block of the \<^verbatim>\<open>if\<close>; when the inner lookup fails, control leaves the block and the
  outer \<^verbatim>\<open>val\<close> is stored.
\<close>

definition DATABASE_URL_step :: "url_parser \<Rightarrow> file_reader \<Rightarrow> environ \<Rightarrow> configurer" where
  "DATABASE_URL_step url_Parse ReadFile env c =
     (case lookupSecureURL url_Parse ReadFile env ''DATABASE_URL_FILE'' of
        (val, Some err) \<Rightarrow>
          (case lookupURL url_Parse env ''DATABASE_URL'' of
             (None, None) \<Rightarrow> Returned (c, Some (ErrMissingEnvVar ''DATABASE_URL''))
           | (Some u, None) \<Rightarrow> Returned (c\<lparr>DatabaseURL := Some u\<rparr>, None)
           | (val', Some err') \<Rightarrow> Returned (c\<lparr>DatabaseURL := val\<rparr>, None))
      | (val, None) \<Rightarrow> Returned (c\<lparr>DatabaseURL := val\<rparr>, None))"

text \<open>
  The \<^verbatim>\<open>RSA_PRIVATE_KEY\<close> step. \<open>Replace_backslash_n\<close> is
  \<^verbatim>\<open>strings.Replace(str, `\n`, "\n", -1)\<close>: every non-overlapping occurrence, from the
  left, of the two characters backslash and \<open>n\<close> becomes one line feed.
  \<^verbatim>\<open>pem.Decode\<close> returns a \<^verbatim>\<open>nil\<close> block when the data holds no line starting with
  \<^verbatim>\<open>-----BEGIN\<close>, which is the part of it written out here; what it does with data that
  has such a line is the parameter \<open>decode_body\<close>. The step reads \<^verbatim>\<open>block.Bytes\<close>
  without testing the block, which panics on \<^verbatim>\<open>nil\<close>.
\<close>

record pem_Block =
  Type :: string
  Headers :: "(string \<times> string) list"
  Bytes :: bytes

fun Replace_backslash_n :: "string \<Rightarrow> string" where
  "Replace_backslash_n (a # b # rest) =
     (if a = CHR 0x5C \<and> b = CHR ''n'' then CHR 0x0A # Replace_backslash_n rest
      else a # Replace_backslash_n (b # rest))"
| "Replace_backslash_n s = s"

fun HasPrefix :: "'a list \<Rightarrow> 'a list \<Rightarrow> bool" where
  "HasPrefix s [] = True"
| "HasPrefix [] (p # ps) = False"
| "HasPrefix (x # xs) (p # ps) = (x = p \<and> HasPrefix xs ps)"

fun Contains :: "'a list \<Rightarrow> 'a list \<Rightarrow> bool" where
  "Contains [] sep = (sep = [])"
| "Contains (x # xs) sep = (HasPrefix (x # xs) sep \<or> Contains xs sep)"

definition pemStart :: bytes where
  "pemStart = bytes_of_string (CHR 0x0A # ''-----BEGIN '')"

definition pem_Decode :: "(bytes \<Rightarrow> pem_Block option) \<Rightarrow> bytes \<Rightarrow> pem_Block option" where
  "pem_Decode decode_body data =
     (if HasPrefix data (tl pemStart) \<or> Contains data pemStart then decode_body data
      else None)"

definition RSA_PRIVATE_KEY_step ::
  "(bytes \<Rightarrow> pem_Block option) \<Rightarrow> (bytes \<Rightarrow> error + rsa_PrivateKey) \<Rightarrow>
   (rsa_PrivateKey \<Rightarrow> private_Key option \<times> error option) \<Rightarrow> environ \<Rightarrow> configurer" where
  "RSA_PRIVATE_KEY_step decode_body ParsePKCS1PrivateKey NewKey env c =
     (case env ''RSA_PRIVATE_KEY'' of
        Some str \<Rightarrow>
          (case pem_Decode decode_body (bytes_of_string (Replace_backslash_n str)) of
             None \<Rightarrow> Panicked
           | Some block \<Rightarrow>
               (case ParsePKCS1PrivateKey (Bytes block) of
                  Inl err \<Rightarrow> Returned (c, Some err)
                | Inr key \<Rightarrow>
                    (case NewKey key of
                       (k, Some err) \<Rightarrow> Returned (c\<lparr>IdentitySigningKey := k\<rparr>, Some err)
                     | (k, None) \<Rightarrow> Returned (c\<lparr>IdentitySigningKey := k\<rparr>, None))))
      | None \<Rightarrow> Returned (c, None))"

text \<open>
  The \<^verbatim>\<open>PORT\<close> step. The error of the first \<^verbatim>\<open>strconv.Atoi\<close> is assigned to \<^verbatim>\<open>err\<close> and
  overwritten by the next statement before anything reads it. \<^verbatim>\<open>c.AuthNURL.Port()\<close>
  on a \<^verbatim>\<open>nil\<close> URL panics.
\<close>

definition PORT_step :: "environ \<Rightarrow> configurer" where
  "PORT_step env c =
     (case AuthNURL c of
        None \<Rightarrow> Panicked
      | Some u \<Rightarrow>
          (case Atoi (URL_Port u) of
             (defaultPort, err) \<Rightarrow>
               (case lookupInt env ''PORT'' defaultPort of
                  (val, None) \<Rightarrow> Returned (c\<lparr>ServerPort := val\<rparr>, None)
                | (val, Some err') \<Rightarrow> Returned (c, Some err'))))"

section \<open>\<^verbatim>\<open>services/account_archiver.go\<close>\<close>

text \<open>
  \<^verbatim>\<open>AccountArchiver\<close> receives the two stores as interface values. The account
  store's \<^verbatim>\<open>Archive\<close> method and the function \<^verbatim>\<open>LogoutAccount\<close>, which is handed the
  token store, are parameters of the model: each maps the state of its store to a
  result and a new state. Neither is given the other store. The state \<open>stores\<close>
  holds both stores and the list of calls made on them so far, in order; each call
  site of the source appends its call.
\<close>

datatype call = Archive_call int | LogoutAccount_call int

record ('a, 't) stores =
  accounts :: 'a
  tokens :: 't
  calls :: "call list"

type_synonym 'a Archive_method = "int \<Rightarrow> 'a \<Rightarrow> (bool \<times> error option) \<times> 'a"
type_synonym 't LogoutAccount_func = "int \<Rightarrow> 't \<Rightarrow> error option \<times> 't"

definition AccountArchiver ::
  "'a Archive_method \<Rightarrow> 't LogoutAccount_func \<Rightarrow> int \<Rightarrow> ('a, 't) stores
     \<Rightarrow> error option \<times> ('a, 't) stores" where
  "AccountArchiver store_Archive LogoutAccount accountID s =
     (case store_Archive accountID (accounts s) of
        ((affected, err), accounts') \<Rightarrow>
          let s1 = s\<lparr>accounts := accounts', calls := calls s @ [Archive_call accountID]\<rparr>
          in (case err of
                Some e \<Rightarrow> (Some (Wrap e ''Archive''), s1)
              | None \<Rightarrow>
                  if \<not> affected then (Some (FieldErrors [(''account'', ErrNotFound)]), s1)
                  else (case LogoutAccount accountID (tokens s1) of
                          (result, tokens') \<Rightarrow>
                            (result,
                             s1\<lparr>tokens := tokens',
                                calls := calls s1 @ [LogoutAccount_call accountID]\<rparr>))))"

text \<open>
  Stores held in memory, for running the archiver: accounts as a map from ID to the
  archived flag, refresh tokens as pairs of owner and token; a token store that
  cannot be reached.
\<close>

definition mem_Archive :: "(int \<rightharpoonup> bool) Archive_method" where
  "mem_Archive accountID m =
     (case m accountID of
        None \<Rightarrow> ((False, None), m)
      | Some archived \<Rightarrow> ((True, None), m(accountID \<mapsto> True)))"

definition mem_LogoutAccount :: "(int \<times> string) list LogoutAccount_func" where
  "mem_LogoutAccount accountID ts = (None, filter (\<lambda>t. fst t \<noteq> accountID) ts)"

definition unreachable_LogoutAccount :: "(int \<times> string) list LogoutAccount_func" where
  "unreachable_LogoutAccount accountID ts = (Some (Wrap (LibError ''connection refused'') ''FindAll''), ts)"

definition mem_stores :: "(int \<rightharpoonup> bool, (int \<times> string) list) stores" where
  "mem_stores = \<lparr>accounts = Map.empty(7 \<mapsto> False), tokens = [(7, ''r1''), (8, ''r2'')], calls = []\<rparr>"

section \<open>The wording of the secret-base contract\<close>

text \<open>
  The notions the description of the secret-base step uses, as predicates on the
  environment and the file reader: a source yields a base when its variable is set
  and, for the file, the file can be read. \<open>obtained_base\<close> is the base the step
  works from: the file's contents when \<^verbatim>\<open>SECRET_KEY_BASE_FILE\<close> is set and readable,
  the value of \<^verbatim>\<open>SECRET_KEY_BASE\<close> when \<^verbatim>\<open>SECRET_KEY_BASE_FILE\<close> is unset.
  \<open>keys_from_base\<close> is the record with exactly the five key fields replaced.
\<close>

definition file_source_yields :: "file_reader \<Rightarrow> environ \<Rightarrow> bool" where
  "file_source_yields ReadFile env =
     (case env ''SECRET_KEY_BASE_FILE'' of
        None \<Rightarrow> False
      | Some fileName \<Rightarrow> (case ReadFile fileName of Inl err \<Rightarrow> False | Inr val \<Rightarrow> True))"

definition direct_source_yields :: "environ \<Rightarrow> bool" where
  "direct_source_yields env = (env ''SECRET_KEY_BASE'' \<noteq> None)"

definition returns_error :: "(Config \<times> error option) outcome \<Rightarrow> bool" where
  "returns_error r = (case r of Returned (c, Some err) \<Rightarrow> True | _ \<Rightarrow> False)"

definition obtained_base :: "file_reader \<Rightarrow> environ \<Rightarrow> bytes option" where
  "obtained_base ReadFile env =
     (case env ''SECRET_KEY_BASE_FILE'' of
        Some fileName \<Rightarrow> (case ReadFile fileName of Inl err \<Rightarrow> None | Inr val \<Rightarrow> Some val)
      | None \<Rightarrow> map_option bytes_of_string (env ''SECRET_KEY_BASE''))"

definition keys_from_base :: "bytes \<Rightarrow> Config \<Rightarrow> Config" where
  "keys_from_base base c =
     c\<lparr>SessionSigningKey := derive base ''session-key-salt'',
       ResetSigningKey := derive base ''password-reset-token-key-salt'',
       PasswordlessTokenSigningKey := derive base ''passwordless-token-key-salt'',
       DBEncryptionKey := take 32 (derive base ''db-encryption-key-salt''),
       OAuthSigningKey := derive base ''oauth-key-salt''\<rparr>"

text \<open>A file system in which no file can be opened, and the issuer URL of the
  source's own example, \<^verbatim>\<open>https://app.domain.com/authn\<close>, as \<^verbatim>\<open>url.Parse\<close> splits it.\<close>

definition no_files :: file_reader where
  "no_files fileName = Inl (LibError ''open: no such file or directory'')"

definition example_AuthNURL :: URL where
  "example_AuthNURL = \<lparr>Scheme = ''https'', Host = ''app.domain.com'', Path = ''/authn''\<rparr>"

section \<open>The wording of the boolean lookup\<close>

text \<open>
  What the description calls a case-insensitive match of a value with a word: the two
  are equal, rune by rune, after case folding. \<open>case_fold\<close> is Unicode's simple case
  folding on the runes that fold to ASCII: the capital letters, U+017F and U+212A.
\<close>

definition case_fold :: "rune \<Rightarrow> rune" where
  "case_fold r =
     (if 0x41 \<le> r \<and> r \<le> 0x5A then r + 32
      else if r = 0x17F then 0x73
      else if r = 0x212A then 0x6B
      else r)"

definition matches_ignoring_case :: "string \<Rightarrow> string \<Rightarrow> bool" where
  "matches_ignoring_case val word =
     (map case_fold (runes_of val) = map case_fold (runes_of word))"

section \<open>Required variables\<close>

text \<open>
  C9. For every variable name \<open>X\<close> that is unset in the environment, \<open>requireEnv\<close>
  returns the empty string together with the error \<open>ErrMissingEnvVar X\<close>, whose message
  is the fixed prefix followed by exactly \<open>X\<close>; the name can be read back from the
  message by dropping the prefix.
\<close>

theorem requireEnv_unset_names_variable:
  assumes "env X = None"
  shows "requireEnv env X = ('''', Some (ErrMissingEnvVar X))
       \<and> ErrMissingEnvVar_Error X = ''missing environment variable: '' @ X
       \<and> drop (length ''missing environment variable: '') (ErrMissingEnvVar_Error X) = X"
  using assms by (simp add: requireEnv_def ErrMissingEnvVar_Error_def)

theorem requireEnv_unset_names_variable_witness:
  "requireEnv (Map.empty(''HOME'' \<mapsto> ''/root'')) ''APP_DOMAINS''
     = ('''', Some (ErrMissingEnvVar ''APP_DOMAINS''))
   \<and> ErrMissingEnvVar_Error ''APP_DOMAINS'' = ''missing environment variable: APP_DOMAINS''"
  using requireEnv_unset_names_variable
    [of "Map.empty(''HOME'' \<mapsto> ''/root'')" "''APP_DOMAINS''"]
  by simp

section \<open>Boolean variables\<close>

lemma utf8_runes_Nil: "utf8_runes [] = []"
  by (simp add: utf8_runes.simps)

lemma utf8_runes_ascii: "list_all (\<lambda>b. b < 0x80) bs \<Longrightarrow> utf8_runes bs = bs"
proof (induction bs)
  case Nil
  show ?case by (rule utf8_runes_Nil)
next
  case (Cons b bs)
  then show ?case
    by (subst utf8_runes.simps) (simp add: DecodeRune_def)
qed

lemma runes_of_t: "runes_of ''t'' = [0x74]"
  and runes_of_true: "runes_of ''true'' = [0x74, 0x72, 0x75, 0x65]"
  and runes_of_yes: "runes_of ''yes'' = [0x79, 0x65, 0x73]"
  by (simp_all add: runes_of_def utf8_runes_ascii)

text \<open>
  Under the flag \<^verbatim>\<open>i\<close>, each letter of the three words matches exactly the runes that
  fold to it.
\<close>

lemma MatchRune_letters:
  "MatchRune True 0x74 r \<longleftrightarrow> case_fold r = 0x74"
  "MatchRune True 0x72 r \<longleftrightarrow> case_fold r = 0x72"
  "MatchRune True 0x75 r \<longleftrightarrow> case_fold r = 0x75"
  "MatchRune True 0x65 r \<longleftrightarrow> case_fold r = 0x65"
  "MatchRune True 0x79 r \<longleftrightarrow> case_fold r = 0x79"
  "MatchRune True 0x73 r \<longleftrightarrow> case_fold r = 0x73"
  by (auto simp: MatchRune_def SimpleFold_def case_fold_def numeral_eq_Suc)

lemma match_literal_eq:
  "match_literal f w inp =
     (if length w \<le> length inp \<and> list_all2 (MatchRune f) w (take (length w) inp)
      then Some (drop (length w) inp) else None)"
  by (induction f w inp rule: match_literal.induct) auto

lemma list_all2_by_fold:
  assumes "\<And>r0 r. r0 \<in> set w \<Longrightarrow> P r0 r \<longleftrightarrow> g r = r0"
  shows "list_all2 P w inp \<longleftrightarrow> map g inp = w"
  using assms
proof (induction w arbitrary: inp)
  case Nil
  show ?case by auto
next
  case (Cons r0 w)
  show ?case
  proof (cases inp)
    case Nil
    then show ?thesis by simp
  next
    case (Cons r rs)
    have "list_all2 P w rs \<longleftrightarrow> map g rs = w"
      by (rule Cons.IH) (simp add: Cons.prems)
    moreover have "P r0 r \<longleftrightarrow> g r = r0"
      by (rule Cons.prems) simp
    ultimately show ?thesis
      using Cons by simp
  qed
qed

text \<open>Only the first state of the text is at position 0, where \<^verbatim>\<open>^\<close> holds.\<close>

lemma starts_later: "st \<in> set (starts (Suc i) rs) \<Longrightarrow> fst st \<noteq> 0"
  by (induction rs arbitrary: i) auto

lemma re_step_BeginText_later: "fst st \<noteq> 0 \<Longrightarrow> re_step (Concat BeginText X) st = []"
  by (cases st) simp

lemma anchored_match:
  "list_ex (\<lambda>st. re_step (Concat BeginText X) st \<noteq> []) (starts 0 inp)
     \<longleftrightarrow> re_step X (0, inp) \<noteq> []"
proof -
  have later: "\<not> list_ex (\<lambda>st. re_step (Concat BeginText X) st \<noteq> []) (starts (Suc 0) rs)" for rs
    by (auto simp: list_ex_iff dest!: starts_later re_step_BeginText_later [where X = X])
  show ?thesis
    using later by (cases inp) (simp_all del: re_step.simps(4) add: re_step.simps(4) [of BeginText])
qed

lemma literal_then_end:
  "re_step (Concat (Literal f w) EndText) (i, inp) \<noteq> []
     \<longleftrightarrow> length inp = length w \<and> list_all2 (MatchRune f) w inp"
  by (auto simp: match_literal_eq)

lemma literal_to_end:
  assumes "\<And>r0 r. r0 \<in> set w \<Longrightarrow> MatchRune f r0 r \<longleftrightarrow> g r = r0"
  shows "re_step (Concat (Literal f w) EndText) (i, inp) \<noteq> [] \<longleftrightarrow> map g inp = w"
proof -
  have a: "list_all2 (MatchRune f) w inp \<longleftrightarrow> map g inp = w"
    using assms by (rule list_all2_by_fold)
  have b: "map g inp = w \<Longrightarrow> length inp = length w"
    by auto
  show ?thesis
    unfolding literal_then_end a using b by blast
qed

lemma re_step_Alternate_Concat:
  "re_step (Concat (Alternate a b) c) st \<noteq> []
     \<longleftrightarrow> re_step (Concat a c) st \<noteq> [] \<or> re_step (Concat b c) st \<noteq> []"
  by auto

lemma truthy_pattern_matches:
  "regexp_MatchString truthy_pattern val =
     (map case_fold (runes_of val) = [0x74]
      \<or> map case_fold (runes_of val) = [0x74, 0x72, 0x75, 0x65]
      \<or> map case_fold (runes_of val) = [0x79, 0x65, 0x73], None)"
proof -
  define inp where "inp = runes_of val"
  have t: "re_step (Concat (Literal True [0x74]) EndText) (0, inp) \<noteq> []
             \<longleftrightarrow> map case_fold inp = [0x74]"
    by (rule literal_to_end) (auto simp: MatchRune_letters)
  have true: "re_step (Concat (Literal True [0x74, 0x72, 0x75, 0x65]) EndText) (0, inp) \<noteq> []
             \<longleftrightarrow> map case_fold inp = [0x74, 0x72, 0x75, 0x65]"
    by (rule literal_to_end) (auto simp: MatchRune_letters)
  have yes: "re_step (Concat (Literal True [0x79, 0x65, 0x73]) EndText) (0, inp) \<noteq> []
             \<longleftrightarrow> map case_fold inp = [0x79, 0x65, 0x73]"
    by (rule literal_to_end) (auto simp: MatchRune_letters)
  show ?thesis
    by (simp only: regexp_MatchString_def truthy_pattern_def anchored_match
          runes_of_t runes_of_true runes_of_yes re_step_Alternate_Concat t true yes
          inp_def [symmetric])
qed

lemma lookupBool_present:
  "env name = Some val \<Longrightarrow>
   lookupBool env name def =
     (matches_ignoring_case val ''t'' \<or> matches_ignoring_case val ''true''
      \<or> matches_ignoring_case val ''yes'', None)"
  by (simp add: lookupBool_def truthy_pattern_matches matches_ignoring_case_def
        runes_of_t runes_of_true runes_of_yes case_fold_def)

lemma not_truthy_false:
  "\<not> matches_ignoring_case ''false'' ''t''" "\<not> matches_ignoring_case ''false'' ''true''"
  "\<not> matches_ignoring_case ''false'' ''yes''"
  by (simp_all add: matches_ignoring_case_def runes_of_def utf8_runes_ascii case_fold_def)

text \<open>
  On a value of ASCII bytes, matching a word of small letters while ignoring case is
  equality after the capital letters are made small.
\<close>

lemma matches_ignoring_case_ascii:
  assumes "list_all (\<lambda>c. (of_char c :: nat) < 0x80) val"
    and "list_all (\<lambda>c. (of_char c :: nat) < 0x80
            \<and> \<not> (0x41 \<le> (of_char c :: nat) \<and> (of_char c :: nat) \<le> 0x5A)) word"
  shows "matches_ignoring_case val word \<longleftrightarrow>
           map (\<lambda>c. if 0x41 \<le> (of_char c :: nat) \<and> (of_char c :: nat) \<le> 0x5A
                     then (of_char c :: nat) + 32 else of_char c) val
             = map of_char word"
proof -
  have v: "runes_of val = map of_char val"
    using assms(1) by (simp add: runes_of_def utf8_runes_ascii list_all_iff)
  have w: "runes_of word = map of_char word"
    using assms(2) by (simp add: runes_of_def utf8_runes_ascii list_all_iff)
  have fv: "map case_fold (map of_char val)
              = map (\<lambda>c. if 0x41 \<le> (of_char c :: nat) \<and> (of_char c :: nat) \<le> 0x5A
                          then (of_char c :: nat) + 32 else of_char c) val"
    using assms(1) by (induction val) (auto simp: case_fold_def)
  have fw: "map case_fold (map of_char word) = map (of_char :: char \<Rightarrow> nat) word"
    using assms(2) by (induction word) (auto simp: case_fold_def)
  show ?thesis
    unfolding matches_ignoring_case_def v w fv fw ..
qed

text \<open>
  C8. When the variable is present with value \<open>val\<close>, \<open>lookupBool\<close> returns, with no
  error, the truth of: \<open>val\<close> matches \<^verbatim>\<open>t\<close>, \<^verbatim>\<open>true\<close> or \<^verbatim>\<open>yes\<close> ignoring case. For the
  value \<^verbatim>\<open>false\<close> it returns \<open>False\<close> with no error. When the variable is absent it
  returns the default with no error.
\<close>

theorem lookupBool_truthy_vocabulary:
  "(\<forall>val. env name = Some val \<longrightarrow>
      lookupBool env name def =
        (matches_ignoring_case val ''t'' \<or> matches_ignoring_case val ''true''
         \<or> matches_ignoring_case val ''yes'', None))
   \<and> (env name = Some ''false'' \<longrightarrow> lookupBool env name def = (False, None))
   \<and> (env name = None \<longrightarrow> lookupBool env name def = (def, None))"
  by (auto simp: lookupBool_present not_truthy_false) (simp add: lookupBool_def)

theorem lookupBool_truthy_vocabulary_witness:
  "lookupBool (Map.empty(''ENABLE_SIGNUP'' \<mapsto> ''false'')) ''ENABLE_SIGNUP'' True = (False, None)
   \<and> lookupBool (Map.empty(''ENABLE_SIGNUP'' \<mapsto> ''false'')) ''PROXIED'' True = (True, None)
   \<and> lookupBool (Map.empty(''PROXIED'' \<mapsto> ''YES'')) ''PROXIED'' False = (True, None)"
proof -
  have yes: "matches_ignoring_case ''YES'' ''yes''"
    by (simp add: matches_ignoring_case_def runes_of_def utf8_runes_ascii case_fold_def)
  from lookupBool_truthy_vocabulary
         [of "Map.empty(''ENABLE_SIGNUP'' \<mapsto> ''false'')" "''ENABLE_SIGNUP''" True]
       lookupBool_truthy_vocabulary
         [of "Map.empty(''ENABLE_SIGNUP'' \<mapsto> ''false'')" "''PROXIED''" True]
       lookupBool_truthy_vocabulary
         [of "Map.empty(''PROXIED'' \<mapsto> ''YES'')" "''PROXIED''" False]
       yes
  show ?thesis by (simp add: not_truthy_false)
qed

section \<open>Lengths of digests and derived keys\<close>

lemma length_PutUint32: "length (PutUint32 v) = 4"
  by (simp add: PutUint32_def)

lemma length_sha_block: "length (sha_block hs p) = 8"
  by (simp add: sha_block_def Let_def split: prod.splits)

lemma length_foldl_sha_block:
  "length hs = 8 \<Longrightarrow> length (foldl sha_block hs ps) = 8"
  by (induction ps arbitrary: hs) (simp_all add: length_sha_block)

lemma length_concat_PutUint32: "length (concat (map PutUint32 ws)) = 4 * length ws"
  by (induction ws) (simp_all add: length_PutUint32)

text \<open>The padded message is a whole number of 64-byte blocks, which \<open>chunks\<close> cuts it into.\<close>

lemma length_PutUint64: "length (PutUint64 v) = 8"
  by (simp add: PutUint64_def)

lemma length_sha_padding:
  "length (sha_padding n) = (if n mod 64 < 56 then 64 - n mod 64 else 128 - n mod 64)"
proof -
  have "length (sha_padding n) =
          Suc ((if n mod 64 < 56 then 56 - n mod 64 else 64 + 56 - n mod 64) - 1) + 8"
    unfolding sha_padding_def Let_def
    by (simp only: length_append length_replicate list.size length_PutUint64)
  then show ?thesis
    by (simp split: if_splits)
qed

lemma sha_padding_fills_block: "(n + length (sha_padding n)) mod 64 = 0"
  unfolding length_sha_padding by presburger

lemma length_sha256_Sum: "length (sha256_Sum msg) = 32"
  by (simp add: sha256_Sum_def length_concat_PutUint32 length_foldl_sha_block sha256_init_def)

lemma length_hmac_sha256: "length (hmac_sha256 key msg) = 32"
  by (simp add: hmac_sha256_def Let_def length_sha256_Sum)

lemma length_pbkdf2_rounds:
  assumes "\<And>x. length (prf x) = h" and "length T = h"
  shows "length (pbkdf2_rounds prf n U T) = h"
  using assms(2) by (induction n arbitrary: U T) (simp_all add: Let_def assms(1))

lemma length_pbkdf2_block:
  assumes "\<And>x. length (prf x) = h"
  shows "length (pbkdf2_block prf salt iter block) = h"
  by (simp add: pbkdf2_block_def Let_def length_pbkdf2_rounds [OF assms] assms)

lemma length_concat_blocks:
  assumes "\<And>x. length (f x) = h"
  shows "length (concat (map f xs)) = h * length xs"
  by (induction xs) (simp_all add: assms)

lemma length_pbkdf2_Key:
  "length (pbkdf2_Key password salt iter keyLen) = keyLen"
proof -
  define bs where "bs = [1..<(keyLen + 32 - 1) div 32 + 1]"
  define dk where "dk = concat (map (pbkdf2_block (hmac_sha256 password) salt iter) bs)"
  have bs: "length bs = (keyLen + 32 - 1) div 32"
    by (simp add: bs_def)
  have "length dk = 32 * length bs"
    unfolding dk_def
    by (rule length_concat_blocks) (simp add: length_pbkdf2_block [where h = 32] length_hmac_sha256)
  then have le: "keyLen \<le> length dk"
    using bs by presburger
  have "pbkdf2_Key password salt iter keyLen = take keyLen dk"
    by (simp only: pbkdf2_Key_def Let_def dk_def bs_def)
  then show ?thesis
    using le by simp
qed

lemma length_derive: "length (derive base salt) = 128"
  by (simp add: derive_def length_pbkdf2_Key)

lemma slice_to_derive: "slice_to (derive base salt) 32 = Returned (take 32 (derive base salt))"
  by (simp add: slice_to_def length_derive)

section \<open>The secret-base step\<close>

text \<open>
  The step in closed form: it sets the five keys from the obtained base, and without
  one it returns the error of the source that was consulted and leaves the record as
  it was. The slice of the database key never panics.
\<close>

lemma SECRET_KEY_BASE_step_eq:
  "SECRET_KEY_BASE_step ReadFile env c =
     (case obtained_base ReadFile env of
        Some base \<Rightarrow> Returned (keys_from_base base c, None)
      | None \<Rightarrow>
          (case env ''SECRET_KEY_BASE_FILE'' of
             Some fileName \<Rightarrow> Returned (c, Some (projl (ReadFile fileName)))
           | None \<Rightarrow> Returned (c, Some (ErrMissingEnvVar ''SECRET_KEY_BASE''))))"
  by (simp add: SECRET_KEY_BASE_step_def requireEnv_def obtained_base_def keys_from_base_def
        slice_to_derive split: option.splits sum.splits)

text \<open>
  C3, as stated, at a concrete input: \<^verbatim>\<open>SECRET_KEY_BASE_FILE\<close> names a file that cannot
  be read and \<^verbatim>\<open>SECRET_KEY_BASE\<close> is set. The step returns an error although the
  direct source yields a base, so "an error iff neither source yields a base" fails.
\<close>

theorem secret_base_fallback_counterexample:
  "\<not> (returns_error
        (SECRET_KEY_BASE_step no_files
           (Map.empty(''SECRET_KEY_BASE_FILE'' \<mapsto> ''/run/secrets/base'',
                      ''SECRET_KEY_BASE'' \<mapsto> ''abc'')) zeroConfig)
      \<longleftrightarrow>
        \<not> file_source_yields no_files
            (Map.empty(''SECRET_KEY_BASE_FILE'' \<mapsto> ''/run/secrets/base'',
                       ''SECRET_KEY_BASE'' \<mapsto> ''abc''))
        \<and> \<not> direct_source_yields
            (Map.empty(''SECRET_KEY_BASE_FILE'' \<mapsto> ''/run/secrets/base'',
                       ''SECRET_KEY_BASE'' \<mapsto> ''abc'')))"
  by (simp add: SECRET_KEY_BASE_step_def requireEnv_def no_files_def returns_error_def
        file_source_yields_def direct_source_yields_def)

text \<open>
  C3, amended. The step works from the obtained base: the contents of the file when
  \<^verbatim>\<open>SECRET_KEY_BASE_FILE\<close> is set (a file that cannot be read gives no base, and
  \<^verbatim>\<open>SECRET_KEY_BASE\<close> is not consulted), the value of \<^verbatim>\<open>SECRET_KEY_BASE\<close> when
  \<^verbatim>\<open>SECRET_KEY_BASE_FILE\<close> is unset. It returns an error, leaving the record unchanged,
  iff there is no obtained base. With a base it returns no error and the record
  differs from the one it was given in exactly the five key fields: four are
  \<open>derive\<close> of the base under their labels, \<open>DBEncryptionKey\<close> is the first 32 bytes of
  \<open>derive\<close> under its label; the five labels are distinct.
\<close>

theorem secret_base_step_contract:
  "(returns_error (SECRET_KEY_BASE_step ReadFile env c) \<longleftrightarrow> obtained_base ReadFile env = None)
   \<and> (obtained_base ReadFile env = None \<longrightarrow>
        (\<exists>err. SECRET_KEY_BASE_step ReadFile env c = Returned (c, Some err)))
   \<and> (\<forall>base. obtained_base ReadFile env = Some base \<longrightarrow>
        SECRET_KEY_BASE_step ReadFile env c = Returned (keys_from_base base c, None))
   \<and> (env ''SECRET_KEY_BASE_FILE'' = None \<longrightarrow>
        obtained_base ReadFile env = map_option bytes_of_string (env ''SECRET_KEY_BASE''))
   \<and> (\<forall>fileName. env ''SECRET_KEY_BASE_FILE'' = Some fileName \<longrightarrow>
        obtained_base ReadFile env = (case ReadFile fileName of Inl err \<Rightarrow> None | Inr val \<Rightarrow> Some val))
   \<and> distinct [''session-key-salt'', ''password-reset-token-key-salt'',
        ''passwordless-token-key-salt'', ''db-encryption-key-salt'', ''oauth-key-salt'']"
  by (auto simp: SECRET_KEY_BASE_step_eq returns_error_def obtained_base_def
        split: option.splits sum.splits)

theorem secret_base_step_contract_witness:
  "obtained_base no_files (Map.empty(''SECRET_KEY_BASE'' \<mapsto> ''abc'')) = Some (bytes_of_string ''abc'')
   \<and> SECRET_KEY_BASE_step no_files (Map.empty(''SECRET_KEY_BASE'' \<mapsto> ''abc'')) zeroConfig
       = Returned (keys_from_base (bytes_of_string ''abc'') zeroConfig, None)
   \<and> obtained_base no_files (Map.empty(''SECRET_KEY_BASE_FILE'' \<mapsto> ''/run/secrets/base'')) = None
   \<and> returns_error (SECRET_KEY_BASE_step no_files
        (Map.empty(''SECRET_KEY_BASE_FILE'' \<mapsto> ''/run/secrets/base'')) zeroConfig)"
proof -
  have a: "obtained_base no_files (Map.empty(''SECRET_KEY_BASE'' \<mapsto> ''abc''))
             = Some (bytes_of_string ''abc'')"
    by (simp add: obtained_base_def)
  have b: "obtained_base no_files (Map.empty(''SECRET_KEY_BASE_FILE'' \<mapsto> ''/run/secrets/base''))
             = None"
    by (simp add: obtained_base_def no_files_def)
  from secret_base_step_contract
         [of no_files "Map.empty(''SECRET_KEY_BASE'' \<mapsto> ''abc'')" zeroConfig]
       secret_base_step_contract
         [of no_files "Map.empty(''SECRET_KEY_BASE_FILE'' \<mapsto> ''/run/secrets/base'')" zeroConfig]
       a b
  show ?thesis by simp
qed

text \<open>
  C6. Whatever the environment and the files hold, the step does not panic at the
  slice, and whenever it returns without error the \<open>DBEncryptionKey\<close> of the record it
  leaves is exactly 32 bytes long.
\<close>

theorem DBEncryptionKey_is_32_bytes:
  "SECRET_KEY_BASE_step ReadFile env c \<noteq> Panicked \<and>
   (SECRET_KEY_BASE_step ReadFile env c = Returned (c', None) \<longrightarrow>
      length (DBEncryptionKey c') = 32)"
  by (auto simp: SECRET_KEY_BASE_step_eq keys_from_base_def length_derive
        split: option.splits)

theorem DBEncryptionKey_is_32_bytes_witness:
  "SECRET_KEY_BASE_step (\<lambda>f. if f = ''/run/secrets/base'' then Inr [1, 2, 3] else no_files f)
      (Map.empty(''SECRET_KEY_BASE_FILE'' \<mapsto> ''/run/secrets/base'')) zeroConfig
     = Returned (keys_from_base [1, 2, 3] zeroConfig, None)
   \<and> length (DBEncryptionKey (keys_from_base [1, 2, 3] zeroConfig)) = 32"
proof -
  let ?rf = "\<lambda>f. if f = ''/run/secrets/base'' then Inr [1, 2, 3] else no_files f"
  let ?env = "Map.empty(''SECRET_KEY_BASE_FILE'' \<mapsto> ''/run/secrets/base'')"
  have h: "SECRET_KEY_BASE_step ?rf ?env zeroConfig
     = Returned (keys_from_base [1, 2, 3] zeroConfig, None)"
    by (simp add: SECRET_KEY_BASE_step_eq obtained_base_def)
  from DBEncryptionKey_is_32_bytes
    [of ?rf ?env zeroConfig "keys_from_base [1, 2, 3] zeroConfig"] h
  show ?thesis by simp
qed

text \<open>
  C10. For every base and label, \<open>derive\<close> returns exactly 128 bytes; and whenever the
  secret-base step returns without error, each of \<open>SessionSigningKey\<close>,
  \<open>ResetSigningKey\<close>, \<open>PasswordlessTokenSigningKey\<close> and \<open>OAuthSigningKey\<close> of the
  record it leaves is exactly 128 bytes long, hence not empty.
\<close>

theorem derive_returns_128_bytes:
  "length (derive base label) = 128 \<and>
   (SECRET_KEY_BASE_step ReadFile env c = Returned (c', None) \<longrightarrow>
      length (SessionSigningKey c') = 128 \<and> length (ResetSigningKey c') = 128 \<and>
      length (PasswordlessTokenSigningKey c') = 128 \<and> length (OAuthSigningKey c') = 128 \<and>
      SessionSigningKey c' \<noteq> [] \<and> ResetSigningKey c' \<noteq> [] \<and>
      PasswordlessTokenSigningKey c' \<noteq> [] \<and> OAuthSigningKey c' \<noteq> [])"
proof -
  have ne: "derive b l \<noteq> []" for b l
    using length_derive [of b l] by auto
  show ?thesis
    by (auto simp: SECRET_KEY_BASE_step_eq keys_from_base_def length_derive ne
          split: option.splits)
qed

theorem derive_returns_128_bytes_witness:
  "SECRET_KEY_BASE_step no_files (Map.empty(''SECRET_KEY_BASE'' \<mapsto> ''abc'')) zeroConfig
     = Returned (keys_from_base (bytes_of_string ''abc'') zeroConfig, None)
   \<and> length (SessionSigningKey (keys_from_base (bytes_of_string ''abc'') zeroConfig)) = 128
   \<and> length (OAuthSigningKey (keys_from_base (bytes_of_string ''abc'') zeroConfig)) = 128"
proof -
  have h: "SECRET_KEY_BASE_step no_files (Map.empty(''SECRET_KEY_BASE'' \<mapsto> ''abc'')) zeroConfig
     = Returned (keys_from_base (bytes_of_string ''abc'') zeroConfig, None)"
    by (simp add: SECRET_KEY_BASE_step_eq obtained_base_def)
  from derive_returns_128_bytes
    [of "bytes_of_string ''abc''" "''session-key-salt''" no_files
        "Map.empty(''SECRET_KEY_BASE'' \<mapsto> ''abc'')" zeroConfig
        "keys_from_base (bytes_of_string ''abc'') zeroConfig"] h
  show ?thesis by simp
qed

section \<open>The database step\<close>

text \<open>
  With \<^verbatim>\<open>DATABASE_URL_FILE\<close> unset the secure lookup returns \<^verbatim>\<open>(nil, nil)\<close>, the
  fallback block is skipped, and \<^verbatim>\<open>DATABASE_URL\<close> is never read.
\<close>

lemma DATABASE_URL_step_file_variable_unset:
  assumes "env ''DATABASE_URL_FILE'' = None"
  shows "DATABASE_URL_step url_Parse ReadFile env c = Returned (c\<lparr>DatabaseURL := None\<rparr>, None)"
  using assms by (simp add: DATABASE_URL_step_def lookupSecureURL_def)

text \<open>
  C2, on the code: in the environment where neither \<^verbatim>\<open>DATABASE_URL_FILE\<close> nor
  \<^verbatim>\<open>DATABASE_URL\<close> is set, the step returns no error and stores a \<^verbatim>\<open>nil\<close>
  \<open>DatabaseURL\<close>, for every URL parser, file system and record.
\<close>

theorem DATABASE_URL_step_both_absent:
  "DATABASE_URL_step url_Parse ReadFile Map.empty c = Returned (c\<lparr>DatabaseURL := None\<rparr>, None)"
  by (simp add: DATABASE_URL_step_def lookupSecureURL_def)

section \<open>The identity-key step\<close>

text \<open>Key material that does not parse is returned as the step's error.\<close>

lemma RSA_PRIVATE_KEY_step_bad_key_material:
  assumes "env ''RSA_PRIVATE_KEY'' = Some str"
    and "pem_Decode decode_body (bytes_of_string (Replace_backslash_n str)) = Some block"
    and "ParsePKCS1PrivateKey (Bytes block) = Inl err"
  shows "RSA_PRIVATE_KEY_step decode_body ParsePKCS1PrivateKey NewKey env c
           = Returned (c, Some err)"
  using assms by (simp add: RSA_PRIVATE_KEY_step_def)

text \<open>After the replacement no backslash is followed by \<open>n\<close>.\<close>

lemma Replace_backslash_n_head:
  "HasPrefix (Replace_backslash_n (b # rest)) [CHR ''n''] \<longleftrightarrow> b = CHR ''n''"
  by (cases rest) auto

lemma Replace_backslash_n_complete:
  "\<not> Contains (Replace_backslash_n s) [CHR 0x5C, CHR ''n'']"
proof (induction s rule: Replace_backslash_n.induct)
  case (1 a b rest)
  show ?case
  proof (cases "a = CHR 0x5C \<and> b = CHR ''n''")
    case True
    then have "Replace_backslash_n (a # b # rest) = CHR 0x0A # Replace_backslash_n rest"
      by simp
    then show ?thesis
      using "1.IH"(1) True by simp
  next
    case False
    then have eq: "Replace_backslash_n (a # b # rest) = a # Replace_backslash_n (b # rest)"
      by auto
    have "\<not> (a = CHR 0x5C \<and> HasPrefix (Replace_backslash_n (b # rest)) [CHR ''n''])"
      using False by (simp only: Replace_backslash_n_head) blast
    moreover have "\<not> Contains (Replace_backslash_n (b # rest)) [CHR 0x5C, CHR ''n'']"
      using "1.IH"(2) False by blast
    ultimately show ?thesis
      unfolding eq by (simp del: Replace_backslash_n.simps)
  qed
qed simp_all

text \<open>
  C7, on the code: with \<^verbatim>\<open>RSA_PRIVATE_KEY\<close> set to a value that holds no PEM block, the
  step neither returns an error nor succeeds: it panics on the \<^verbatim>\<open>nil\<close> block.
\<close>

theorem RSA_PRIVATE_KEY_step_panics_without_pem:
  "RSA_PRIVATE_KEY_step decode_body ParsePKCS1PrivateKey NewKey
     (Map.empty(''RSA_PRIVATE_KEY'' \<mapsto> ''not a key'')) c = Panicked"
  by (simp add: RSA_PRIVATE_KEY_step_def pem_Decode_def pemStart_def bytes_of_string_def)

section \<open>The port step\<close>

text \<open>
  Whenever the issuer URL has no port and \<^verbatim>\<open>PORT\<close> is unset, the step returns no error
  and sets the server port to 0; run after the issuer step, on the URL that step
  stored.
\<close>

lemma PORT_step_no_port:
  assumes "AuthNURL c = Some u" and "URL_Port u = []" and "env ''PORT'' = None"
  shows "PORT_step env c = Returned (c\<lparr>ServerPort := 0\<rparr>, None)"
  using assms by (simp add: PORT_step_def Atoi_def lookupInt_def)

lemma PORT_step_after_AUTHN_URL_step:
  assumes "env ''AUTHN_URL'' = Some v" and "url_Parse v = Inr u"
    and "URL_Port u = []" and "env ''PORT'' = None"
  shows "\<exists>c1. AUTHN_URL_step url_Parse env c = Returned (c1, None)
             \<and> PORT_step env c1 = Returned (c1\<lparr>ServerPort := 0\<rparr>, None)"
  using assms
  by (simp add: AUTHN_URL_step_def lookupURL_def go_pair_def PORT_step_def Atoi_def lookupInt_def)

text \<open>
  C1, on the code: the issuer URL is the one of the source's example,
  \<^verbatim>\<open>https://app.domain.com/authn\<close>, which has no port, and \<^verbatim>\<open>PORT\<close> is unset. The step
  returns no error and overwrites the server port with 0.
\<close>

theorem PORT_step_defaults_to_zero:
  "PORT_step Map.empty (zeroConfig\<lparr>AuthNURL := Some example_AuthNURL, ServerPort := 8080\<rparr>)
     = Returned (zeroConfig\<lparr>AuthNURL := Some example_AuthNURL, ServerPort := 0\<rparr>, None)"
  by (simp add: PORT_step_def example_AuthNURL_def URL_Port_def validOptionalPort_def
        Atoi_def lookupInt_def)

section \<open>Account archival\<close>

text \<open>
  C4. For every account ID for which \<^verbatim>\<open>Archive\<close> reports no row affected and no error,
  \<open>AccountArchiver\<close> returns the field error \<open>(account, ErrNotFound)\<close>; the only call it
  has made is the \<^verbatim>\<open>Archive\<close> call, the token store is as it was, no call on the token
  store is recorded, and the outcome is the same whatever \<^verbatim>\<open>LogoutAccount\<close> would do.
\<close>

theorem AccountArchiver_not_found:
  assumes "store_Archive accountID (accounts s) = ((False, None), accounts')"
  shows "AccountArchiver store_Archive LogoutAccount accountID s =
           (Some (FieldErrors [(''account'', ErrNotFound)]),
            s\<lparr>accounts := accounts', calls := calls s @ [Archive_call accountID]\<rparr>)
         \<and> tokens (snd (AccountArchiver store_Archive LogoutAccount accountID s)) = tokens s
         \<and> LogoutAccount_call accountID \<notin>
             set (drop (length (calls s))
                    (calls (snd (AccountArchiver store_Archive LogoutAccount accountID s))))
         \<and> AccountArchiver store_Archive LogoutAccount accountID s
             = AccountArchiver store_Archive LogoutAccount' accountID s"
  using assms by (simp add: AccountArchiver_def)

theorem AccountArchiver_not_found_witness:
  "AccountArchiver mem_Archive mem_LogoutAccount 9 mem_stores =
     (Some (FieldErrors [(''account'', ErrNotFound)]), mem_stores\<lparr>calls := [Archive_call 9]\<rparr>)
   \<and> tokens (snd (AccountArchiver mem_Archive mem_LogoutAccount 9 mem_stores))
       = [(7, ''r1''), (8, ''r2'')]"
proof -
  have h: "mem_Archive 9 (accounts mem_stores) = ((False, None), accounts mem_stores)"
    by (simp add: mem_Archive_def mem_stores_def)
  from AccountArchiver_not_found
         [where store_Archive = mem_Archive and accountID = 9 and s = mem_stores
            and accounts' = "accounts mem_stores" and LogoutAccount = mem_LogoutAccount
            and LogoutAccount' = unreachable_LogoutAccount] h
  show ?thesis by (simp add: mem_stores_def)
qed

text \<open>
  C5. \<open>AccountArchiver\<close> returns no error only when the \<^verbatim>\<open>Archive\<close> call reported an
  affected row without error and the \<^verbatim>\<open>LogoutAccount\<close> call after it returned no error,
  the two calls having been made in that order; when both succeed it returns no error.
  When \<^verbatim>\<open>LogoutAccount\<close> fails after a successful \<^verbatim>\<open>Archive\<close>, its error is what the
  caller gets, and the account store is left as \<^verbatim>\<open>Archive\<close> left it: no further call
  is made on it.
\<close>

theorem AccountArchiver_success_and_partial_failure:
  "(fst (AccountArchiver store_Archive LogoutAccount accountID s) = None \<longrightarrow>
      (\<exists>accounts' tokens'.
         store_Archive accountID (accounts s) = ((True, None), accounts')
         \<and> LogoutAccount accountID (tokens s) = (None, tokens')
         \<and> snd (AccountArchiver store_Archive LogoutAccount accountID s)
             = \<lparr>accounts = accounts', tokens = tokens',
                calls = calls s @ [Archive_call accountID, LogoutAccount_call accountID]\<rparr>))
   \<and> (\<forall>accounts' tokens' e.
         store_Archive accountID (accounts s) = ((True, None), accounts')
         \<and> LogoutAccount accountID (tokens s) = (Some e, tokens') \<longrightarrow>
           fst (AccountArchiver store_Archive LogoutAccount accountID s) = Some e
           \<and> accounts (snd (AccountArchiver store_Archive LogoutAccount accountID s)) = accounts'
           \<and> calls (snd (AccountArchiver store_Archive LogoutAccount accountID s))
               = calls s @ [Archive_call accountID, LogoutAccount_call accountID])
   \<and> (\<forall>accounts' tokens'.
         store_Archive accountID (accounts s) = ((True, None), accounts')
         \<and> LogoutAccount accountID (tokens s) = (None, tokens') \<longrightarrow>
           fst (AccountArchiver store_Archive LogoutAccount accountID s) = None)"
  by (auto simp: AccountArchiver_def Let_def split: prod.splits option.splits if_splits)

theorem AccountArchiver_success_and_partial_failure_witness:
  "AccountArchiver mem_Archive mem_LogoutAccount 7 mem_stores =
     (None, \<lparr>accounts = Map.empty(7 \<mapsto> True), tokens = [(8, ''r2'')],
             calls = [Archive_call 7, LogoutAccount_call 7]\<rparr>)
   \<and> fst (AccountArchiver mem_Archive unreachable_LogoutAccount 7 mem_stores)
       = Some (Wrap (LibError ''connection refused'') ''FindAll'')
   \<and> accounts (snd (AccountArchiver mem_Archive unreachable_LogoutAccount 7 mem_stores))
       = Map.empty(7 \<mapsto> True)"
proof -
  have ok: "fst (AccountArchiver mem_Archive mem_LogoutAccount 7 mem_stores) = None"
    by (simp add: AccountArchiver_def mem_Archive_def mem_LogoutAccount_def mem_stores_def)
  have a: "mem_Archive 7 (accounts mem_stores) = ((True, None), Map.empty(7 \<mapsto> True))"
    by (simp add: mem_Archive_def mem_stores_def)
  have l: "mem_LogoutAccount 7 (tokens mem_stores) = (None, [(8, ''r2'')])"
    by (simp add: mem_LogoutAccount_def mem_stores_def)
  have u: "unreachable_LogoutAccount 7 (tokens mem_stores)
             = (Some (Wrap (LibError ''connection refused'') ''FindAll''), tokens mem_stores)"
    by (simp add: unreachable_LogoutAccount_def)
  from AccountArchiver_success_and_partial_failure
         [of mem_Archive mem_LogoutAccount 7 mem_stores] ok a l
  have first: "snd (AccountArchiver mem_Archive mem_LogoutAccount 7 mem_stores)
     = \<lparr>accounts = Map.empty(7 \<mapsto> True), tokens = [(8, ''r2'')],
        calls = calls mem_stores @ [Archive_call 7, LogoutAccount_call 7]\<rparr>"
    by simp
  from AccountArchiver_success_and_partial_failure
         [of mem_Archive unreachable_LogoutAccount 7 mem_stores] a u
  have second: "fst (AccountArchiver mem_Archive unreachable_LogoutAccount 7 mem_stores)
           = Some (Wrap (LibError ''connection refused'') ''FindAll'')
         \<and> accounts (snd (AccountArchiver mem_Archive unreachable_LogoutAccount 7 mem_stores))
           = Map.empty(7 \<mapsto> True)"
    by blast
  from ok first second show ?thesis
    by (simp add: prod_eq_iff mem_stores_def)
qed

end
